theory Spec2Isabelle
  imports Complex_Main
begin

section \<open>Theme management (src/public/js/theme.js)\<close>

text \<open>
  The three module constants of theme.js.
\<close>

definition THEME_KEY :: string where
  "THEME_KEY = ''slidef-theme''"

definition THEME_DARK :: string where
  "THEME_DARK = ''dark''"

definition THEME_LIGHT :: string where
  "THEME_LIGHT = ''light''"

text \<open>
  JavaScript truthiness of a value that is \<open>null\<close> or a string, as tested by
  \<open>a || b\<close> and \<open>!a\<close>: \<open>null\<close> and the empty string are falsy.
\<close>

fun truthy :: "string option \<Rightarrow> bool" where
  "truthy None = False"
| "truthy (Some v) = (v \<noteq> [])"

text \<open>\<open>a || b\<close> where \<open>a\<close> is \<open>null\<close>, \<open>undefined\<close> or a string, and \<open>b\<close> a string.\<close>

fun js_or :: "string option \<Rightarrow> string \<Rightarrow> string" where
  "js_or None d = d"
| "js_or (Some v) d = (if v \<noteq> [] then v else d)"

text \<open>
  The state a \<open>ThemeManager\<close> reads and writes: its own field \<open>currentTheme\<close>,
  the browser's \<open>localStorage\<close> (a map from keys to values, \<open>None\<close> where
  \<open>getItem\<close> returns \<open>null\<close>), the \<open>data-theme\<close> attribute of the document
  element (\<open>None\<close> while the attribute is not set), and the two icons:
  \<open>None\<close> where \<open>querySelector\<close> finds no element, \<open>Some h\<close> for an element
  whose class list contains \<open>hidden\<close> exactly when \<open>h\<close> holds.
\<close>

record theme_state =
  currentTheme :: string
  localStorage :: "string \<rightharpoonup> string"
  dataTheme :: "string option"
  sunIcon :: "bool option"
  moonIcon :: "bool option"

definition getSystemTheme :: "bool \<Rightarrow> string" where
  "getSystemTheme prefersDark = (if prefersDark then THEME_DARK else THEME_LIGHT)"

definition getStoredTheme :: "theme_state \<Rightarrow> string option" where
  "getStoredTheme s = localStorage s THEME_KEY"

definition setStoredTheme :: "string \<Rightarrow> theme_state \<Rightarrow> theme_state" where
  "setStoredTheme theme s = s\<lparr>localStorage := (localStorage s)(THEME_KEY \<mapsto> theme)\<rparr>"

definition updateIcons :: "theme_state \<Rightarrow> theme_state" where
  "updateIcons s =
     (case (sunIcon s, moonIcon s) of
        (Some _, Some _) \<Rightarrow>
          (if currentTheme s = THEME_DARK
           then s\<lparr>sunIcon := Some True, moonIcon := Some False\<rparr>
           else s\<lparr>sunIcon := Some False, moonIcon := Some True\<rparr>)
      | _ \<Rightarrow> s)"

definition apply_theme :: "theme_state \<Rightarrow> theme_state" where
  "apply_theme s = updateIcons (s\<lparr>dataTheme := Some (currentTheme s)\<rparr>)"

definition toggle :: "theme_state \<Rightarrow> theme_state" where
  "toggle s =
     (let s1 = s\<lparr>currentTheme :=
                   (if currentTheme s = THEME_DARK then THEME_LIGHT else THEME_DARK)\<rparr>;
          s2 = setStoredTheme (currentTheme s1) s1
      in apply_theme s2)"

text \<open>
  The constructor, run on the page as the browser presents it: \<open>page\<close> holds the
  storage, the attribute and the icons before the script runs, \<open>prefersDark\<close> is
  what the media query \<open>(prefers-color-scheme: dark)\<close> matches.
\<close>

definition ThemeManager_new :: "bool \<Rightarrow> theme_state \<Rightarrow> theme_state" where
  "ThemeManager_new prefersDark page =
     apply_theme (page\<lparr>currentTheme :=
        js_or (getStoredTheme page) (getSystemTheme prefersDark)\<rparr>)"

text \<open>
  The listener for the media query's \<open>change\<close> event; \<open>matches\<close> is
  \<open>e.matches\<close>.
\<close>

definition onSystemThemeChange :: "bool \<Rightarrow> theme_state \<Rightarrow> theme_state" where
  "onSystemThemeChange matches s =
     (if \<not> truthy (localStorage s THEME_KEY)
      then apply_theme (s\<lparr>currentTheme := (if matches then THEME_DARK else THEME_LIGHT)\<rparr>)
      else s)"

text \<open>The page of a first visit: nothing stored, no attribute, both icons shown.\<close>

definition fresh_page :: theme_state where
  "fresh_page = \<lparr>currentTheme = [], localStorage = Map.empty, dataTheme = None,
                  sunIcon = Some False, moonIcon = Some False\<rparr>"


section \<open>JavaScript numbers\<close>

text \<open>
  A JavaScript number is \<open>NaN\<close>, an infinity or a finite value. Finite values are
  carried as rationals. Every arithmetic operation takes the rounding \<open>r\<close> it applies
  to its exact result: IEEE 754 arithmetic is the case where \<open>r\<close> rounds to the nearest
  double, exact arithmetic the case where \<open>r\<close> is the identity. Overflow of a finite
  result to an infinity and the sign of zero are not modelled: zero is taken as \<open>+0\<close>.
\<close>

datatype jsnum = NaN | PInf | NInf | Fin rat

type_synonym rounding = "rat \<Rightarrow> rat"

fun jneg :: "jsnum \<Rightarrow> jsnum" where
  "jneg NaN = NaN"
| "jneg PInf = NInf"
| "jneg NInf = PInf"
| "jneg (Fin a) = Fin (- a)"

fun jadd :: "rounding \<Rightarrow> jsnum \<Rightarrow> jsnum \<Rightarrow> jsnum" where
  "jadd r NaN _ = NaN"
| "jadd r _ NaN = NaN"
| "jadd r PInf NInf = NaN"
| "jadd r NInf PInf = NaN"
| "jadd r PInf _ = PInf"
| "jadd r _ PInf = PInf"
| "jadd r NInf _ = NInf"
| "jadd r _ NInf = NInf"
| "jadd r (Fin a) (Fin b) = Fin (r (a + b))"

definition jsub :: "rounding \<Rightarrow> jsnum \<Rightarrow> jsnum \<Rightarrow> jsnum" where
  "jsub r a b = jadd r a (jneg b)"

fun jsign :: "jsnum \<Rightarrow> int" where
  "jsign NaN = 0"
| "jsign PInf = 1"
| "jsign NInf = - 1"
| "jsign (Fin a) = (if a < 0 then - 1 else if a = 0 then 0 else 1)"

fun jmul :: "rounding \<Rightarrow> jsnum \<Rightarrow> jsnum \<Rightarrow> jsnum" where
  "jmul r NaN _ = NaN"
| "jmul r _ NaN = NaN"
| "jmul r (Fin a) (Fin b) = Fin (r (a * b))"
| "jmul r a b =
     (if jsign a * jsign b = 0 then NaN
      else if 0 < jsign a * jsign b then PInf else NInf)"

fun jdiv :: "rounding \<Rightarrow> jsnum \<Rightarrow> jsnum \<Rightarrow> jsnum" where
  "jdiv r NaN _ = NaN"
| "jdiv r _ NaN = NaN"
| "jdiv r (Fin a) (Fin b) =
     (if b \<noteq> 0 then Fin (r (a / b))
      else if a = 0 then NaN
      else if 0 < a then PInf else NInf)"
| "jdiv r (Fin a) _ = Fin 0"
| "jdiv r a (Fin b) =
     (if 0 \<le> b then a else jneg a)"
| "jdiv r _ _ = NaN"

text \<open>\<open>Math.ceil\<close>, \<open>Math.abs\<close>.\<close>

fun jceil :: "jsnum \<Rightarrow> jsnum" where
  "jceil (Fin a) = Fin (of_int \<lceil>a\<rceil>)"
| "jceil x = x"

fun jabs :: "jsnum \<Rightarrow> jsnum" where
  "jabs (Fin a) = Fin \<bar>a\<bar>"
| "jabs NInf = PInf"
| "jabs x = x"

text \<open>The comparisons \<open><\<close>, \<open>>\<close> and \<open>===\<close>: each is false when an operand is \<open>NaN\<close>.\<close>

fun jlt :: "jsnum \<Rightarrow> jsnum \<Rightarrow> bool" where
  "jlt NaN _ = False"
| "jlt _ NaN = False"
| "jlt PInf _ = False"
| "jlt _ PInf = True"
| "jlt _ NInf = False"
| "jlt NInf _ = True"
| "jlt (Fin a) (Fin b) = (a < b)"

definition jgt :: "jsnum \<Rightarrow> jsnum \<Rightarrow> bool" where
  "jgt a b = jlt b a"

definition jeq :: "jsnum \<Rightarrow> jsnum \<Rightarrow> bool" where
  "jeq a b = (a \<noteq> NaN \<and> b \<noteq> NaN \<and> a = b)"

text \<open>\<open>Math.min\<close> and \<open>Math.max\<close> of two arguments: \<open>NaN\<close> when either is \<open>NaN\<close>.\<close>

definition jmin :: "jsnum \<Rightarrow> jsnum \<Rightarrow> jsnum" where
  "jmin a b = (if a = NaN \<or> b = NaN then NaN else if jlt b a then b else a)"

definition jmax :: "jsnum \<Rightarrow> jsnum \<Rightarrow> jsnum" where
  "jmax a b = (if a = NaN \<or> b = NaN then NaN else if jlt a b then b else a)"

text \<open>The number an integer literal or an integer-valued field denotes.\<close>

definition jint :: "int \<Rightarrow> jsnum" where
  "jint n = Fin (of_int n)"

text \<open>
  \<open>xs[i]\<close> for an array \<open>xs\<close> and a number \<open>i\<close>: the element when \<open>i\<close> is an
  integer within the bounds, \<open>undefined\<close> (here \<open>None\<close>) for every other number.
\<close>

fun js_index :: "'a list \<Rightarrow> jsnum \<Rightarrow> 'a option" where
  "js_index xs (Fin a) =
     (if a = of_int \<lfloor>a\<rfloor> \<and> 0 \<le> a \<and> nat \<lfloor>a\<rfloor> < length xs
      then Some (xs ! nat \<lfloor>a\<rfloor>) else None)"
| "js_index xs _ = None"

subsection \<open>Strings and numbers\<close>

text \<open>
  Strings are lists of \<open>char\<close>, one per code unit below 256. \<open>parseInt(s, 10)\<close>
  skips leading white space, reads an optional sign and the longest run of decimal
  digits, and is \<open>NaN\<close> when that run is empty. The value is carried exactly
  (a run of more than 15 digits is not rounded to a double here).
\<close>

definition is_ws :: "char \<Rightarrow> bool" where
  "is_ws c = (c \<in> set [CHR 0x09, CHR 0x0A, CHR 0x0B, CHR 0x0C, CHR 0x0D, CHR 0x20, CHR 0xA0])"

definition is_digit :: "char \<Rightarrow> bool" where
  "is_digit c = (48 \<le> (of_char c :: nat) \<and> (of_char c :: nat) \<le> 57)"

definition digits_value :: "string \<Rightarrow> nat" where
  "digits_value ds = foldl (\<lambda>acc c. 10 * acc + (of_char c - 48)) 0 ds"

definition parseInt :: "string \<Rightarrow> jsnum" where
  "parseInt s =
     (let s1 = dropWhile is_ws s;
          neg = (case s1 of c # _ \<Rightarrow> c = CHR ''-'' | [] \<Rightarrow> False);
          s2 = (case s1 of c # cs \<Rightarrow> if c = CHR ''-'' \<or> c = CHR ''+'' then cs else s1 | [] \<Rightarrow> s1);
          ds = takeWhile is_digit s2
      in if ds = [] then NaN
         else jint (if neg then - int (digits_value ds) else int (digits_value ds)))"

text \<open>\<open>String(n)\<close> for a non-negative integer \<open>n\<close>, and \<open>padStart(k, "0")\<close>.\<close>

fun show_nat :: "nat \<Rightarrow> string" where
  "show_nat n =
     (if n < 10 then [''0123456789'' ! n]
      else show_nat (n div 10) @ [''0123456789'' ! (n mod 10)])"

declare show_nat.simps [simp del]

definition padStart :: "nat \<Rightarrow> char \<Rightarrow> string \<Rightarrow> string" where
  "padStart k c s = replicate (k - length s) c @ s"


section \<open>The slide viewer (src/docs/js/viewer.js)\<close>

subsection \<open>The query string\<close>

text \<open>
  \<open>URLSearchParams\<close> is an ordered list of name-value pairs. A value is a string;
  a value written from a number \<open>n\<close> is the string \<open>String(n)\<close>, kept here as
  \<open>QNum n\<close> so that the number it renders stays readable.
\<close>

datatype qval = QStr string | QNum jsnum

type_synonym query = "(string \<times> qval) list"

definition sp_get :: "query \<Rightarrow> string \<Rightarrow> qval option" where
  "sp_get q k = map_of q k"

definition sp_has :: "query \<Rightarrow> string \<Rightarrow> bool" where
  "sp_has q k = (k \<in> fst ` set q)"

text \<open>
  \<open>set(name, value)\<close>: the first pair of that name takes the value and the others
  are removed; without such a pair, the new pair is appended.
\<close>

fun sp_set :: "string \<Rightarrow> qval \<Rightarrow> query \<Rightarrow> query" where
  "sp_set k v [] = [(k, v)]"
| "sp_set k v ((k', v') # q) =
     (if k' = k then (k, v) # filter (\<lambda>p. fst p \<noteq> k) q
      else (k', v') # sp_set k v q)"

subsection \<open>State\<close>

text \<open>
  The deck's metadata.json: \<open>pageCount\<close> is an integer, \<open>title\<close> and
  \<open>format\<close> may be missing.
\<close>

record deck_metadata =
  md_name :: string
  md_title :: "string option"
  pageCount :: int
  md_format :: "string option"

text \<open>
  One of the three image slots: its \<open>src\<close> (\<open>None\<close> when \<open>undefined\<close>
  was assigned), whether its class list has \<open>loading\<close>, and \<open>style.display\<close>.
\<close>

record img =
  src :: "string option"
  loading :: bool
  display :: string

text \<open>The floating preview over the progress bar.\<close>

record thumbnail =
  thumbLeft :: jsnum
  thumbTransform :: string
  thumbSrc :: "string option"
  thumbNumber :: "jsnum \<times> int"
  thumbHidden :: bool

text \<open>
  The fields of a \<open>SlidefViewer\<close> followed by the parts of the page it reads and
  writes. Texts built from numbers keep the number: \<open>progressWidth\<close> is the number
  before \<open>%\<close> in the width of the progress fill, \<open>docTitle\<close> the two parts of
  the document title around \<open>- Slide\<close>, \<open>thumbLeft\<close> the number before \<open>px\<close>.
  A timer field holds whether a timer id is stored in it. An image of the scroll
  container is its \<open>src\<close> and the number in its \<open>alt\<close> text;
  \<open>scrolledIntoView\<close> is the index of the image last passed to \<open>scrollIntoView\<close>.
  The constant style resets of the wrapper are left out, and so are the \<open>load\<close> and
  \<open>error\<close> events of the images, which clear \<open>loading\<close> and hide the spinner.
\<close>

record viewer =
  slideName :: string
  currentSlide :: jsnum
  totalSlides :: int
  slideImages :: "string list"
  metadata :: "deck_metadata option"
  hideControlsTimer :: bool
  wheelThrottleTimer :: bool
  search :: query
  docTitle :: "string \<times> jsnum"
  scrollMode :: bool
  controlsVisible :: bool
  slideLoadingDisplay :: string
  slidePrev :: img
  slideCurrent :: img
  slideNext :: img
  progressWidth :: jsnum
  navAreaPrevDisplay :: string
  navAreaNextDisplay :: string
  closeButtonDisplay :: string
  slideModeIconHidden :: bool
  scrollModeIconHidden :: bool
  scrollContainer :: "(string option \<times> nat) list"
  scrollContainerHidden :: bool
  scrolledIntoView :: "nat option"
  overviewModalHidden :: bool
  shareModalHidden :: bool
  thumbnailPreview :: thumbnail

subsection \<open>Construction and metadata\<close>

text \<open>\<open>s.split(c)\<close>: the pieces of \<open>s\<close> between occurrences of \<open>c\<close>.\<close>

fun split_on :: "char \<Rightarrow> string \<Rightarrow> string list" where
  "split_on c [] = [[]]"
| "split_on c (x # xs) =
     (if x = c then [] # split_on c xs
      else (case split_on c xs of
              w # ws \<Rightarrow> (x # w) # ws
            | [] \<Rightarrow> [[x]]))"

text \<open>
  The constructor up to its call of \<open>init\<close>. \<open>pathname\<close> and \<open>query0\<close> are
  \<open>window.location.pathname\<close> and the pairs of \<open>window.location.search\<close> when
  the script runs; \<open>page\<close> is the state of the page's elements then. A parameter
  that is absent reads as \<open>null\<close>.
\<close>

definition SlidefViewer_new :: "string \<Rightarrow> (string \<times> string) list \<Rightarrow> viewer \<Rightarrow> viewer" where
  "SlidefViewer_new pathname query0 page =
     (let pathParts = filter (\<lambda>p. p \<noteq> []) (split_on (CHR ''/'') pathname);
          lastPart = (if pathParts = [] then None else Some (last pathParts))
      in page\<lparr>
           slideName :=
             (if lastPart = Some ''viewer.html''
              then js_or (map_of query0 ''slide'') []
              else js_or lastPart (js_or (map_of query0 ''slide'') [])),
           currentSlide := parseInt (js_or (map_of query0 ''page'') ''1''),
           totalSlides := 0,
           slideImages := [],
           metadata := None,
           hideControlsTimer := False,
           wheelThrottleTimer := False,
           search := map (\<lambda>(k, v). (k, QStr v)) query0\<rparr>)"

text \<open>
  \<open>loadMetadata\<close>: \<open>response\<close> is \<open>None\<close> when the fetch is rejected, its
  status is not ok or its body is not JSON, and the method throws (here \<open>None\<close>);
  otherwise it is the parsed metadata. \<open>Array.from\<close> builds no element for a
  length that is not positive.
\<close>

definition loadMetadata :: "string \<Rightarrow> deck_metadata option \<Rightarrow> viewer \<Rightarrow> viewer option" where
  "loadMetadata baseUrl response s =
     (case response of
        None \<Rightarrow> None
      | Some md \<Rightarrow>
          (let fmt = js_or (md_format md) ''webp''
           in Some (s\<lparr>
                metadata := Some md,
                totalSlides := pageCount md,
                slideImages :=
                  map (\<lambda>i. baseUrl @ ''/slides/'' @ slideName s @ ''/images/slide-''
                            @ padStart 3 (CHR ''0'') (show_nat (i + 1)) @ ''.'' @ fmt)
                      [0..<nat (pageCount md)]\<rparr>)))"

subsection \<open>Navigation\<close>

definition showControls :: "viewer \<Rightarrow> viewer" where
  "showControls s = s\<lparr>controlsVisible := True, hideControlsTimer := True\<rparr>"

text \<open>
  \<open>setupEventListeners\<close> registers the listeners, which are the functions below,
  and ends with \<open>showControls\<close>.
\<close>

definition setupEventListeners :: "viewer \<Rightarrow> viewer" where
  "setupEventListeners s = showControls s"

definition closeOverviewModal :: "viewer \<Rightarrow> viewer" where
  "closeOverviewModal s = s\<lparr>overviewModalHidden := True\<rparr>"

definition closeShareModal :: "viewer \<Rightarrow> viewer" where
  "closeShareModal s = s\<lparr>shareModalHidden := True\<rparr>"

text \<open>
  \<open>showSlide(slideNumber, updateHistory)\<close>: one field per statement, in the
  order of the source; each statement reads \<open>this.currentSlide\<close> as the first
  one has set it. The last statement reads \<open>this.metadata.title\<close>: without
  metadata it throws, after every other update.
\<close>

definition showSlide :: "rounding \<Rightarrow> jsnum \<Rightarrow> bool \<Rightarrow> viewer \<Rightarrow> viewer" where
  "showSlide r slideNumber updateHistory s =
     (let cur = jmax (jint 1) (jmin slideNumber (jint (totalSlides s)))
      in s\<lparr>currentSlide := cur,
           slideLoadingDisplay := ''block'',
           slideCurrent := (slideCurrent s)\<lparr>
             loading := True,
             src := js_index (slideImages s) (jsub r cur (jint 1))\<rparr>,
           slidePrev :=
             (if jgt cur (jint 1)
              then (slidePrev s)\<lparr>
                     loading := True,
                     src := js_index (slideImages s) (jsub r cur (jint 2)),
                     display := ''block''\<rparr>
              else (slidePrev s)\<lparr>display := ''none''\<rparr>),
           slideNext :=
             (if jlt cur (jint (totalSlides s))
              then (slideNext s)\<lparr>
                     loading := True,
                     src := js_index (slideImages s) cur,
                     display := ''block''\<rparr>
              else (slideNext s)\<lparr>display := ''none''\<rparr>),
           progressWidth := jmul r (jdiv r cur (jint (totalSlides s))) (jint 100),
           navAreaPrevDisplay := (if jeq cur (jint 1) then ''none'' else ''block''),
           navAreaNextDisplay :=
             (if jeq cur (jint (totalSlides s)) then ''none'' else ''block''),
           search :=
             (if updateHistory then sp_set ''page'' (QNum cur) (search s) else search s),
           docTitle :=
             (case metadata s of
                None \<Rightarrow> docTitle s
              | Some md \<Rightarrow> (js_or (md_title md) (md_name md), cur))\<rparr>)"

definition goToSlide :: "rounding \<Rightarrow> jsnum \<Rightarrow> viewer \<Rightarrow> viewer" where
  "goToSlide r slideNumber s = showSlide r slideNumber True s"

definition previousSlide :: "rounding \<Rightarrow> viewer \<Rightarrow> viewer" where
  "previousSlide r s =
     (if jgt (currentSlide s) (jint 1)
      then goToSlide r (jsub r (currentSlide s) (jint 1)) s
      else s)"

definition nextSlide :: "rounding \<Rightarrow> viewer \<Rightarrow> viewer" where
  "nextSlide r s =
     (if jlt (currentSlide s) (jint (totalSlides s))
      then goToSlide r (jadd r (currentSlide s) (jint 1)) s
      else s)"

subsection \<open>Input handlers\<close>

text \<open>
  \<open>handleKeyPress\<close>, on \<open>e.key\<close>. The effect of \<open>preventDefault\<close> is on the
  event and is not part of the state.
\<close>

definition handleKeyPress :: "rounding \<Rightarrow> string \<Rightarrow> viewer \<Rightarrow> viewer" where
  "handleKeyPress r key s =
     (if key = ''Escape'' \<and> \<not> overviewModalHidden s then closeOverviewModal s
      else if key = ''Escape'' \<and> \<not> shareModalHidden s then closeShareModal s
      else if key = ''ArrowLeft'' \<or> key = ''ArrowUp'' \<or> key = ''PageUp''
        then previousSlide r s
      else if key = ''ArrowRight'' \<or> key = ''ArrowDown'' \<or> key = ''PageDown'' \<or> key = '' ''
        then nextSlide r s
      else if key = ''Home'' then goToSlide r (jint 1) s
      else if key = ''End'' then goToSlide r (jint (totalSlides s)) s
      else s)"

text \<open>\<open>handleWheel\<close>, on \<open>e.deltaY\<close>, a finite number.\<close>

definition handleWheel :: "rounding \<Rightarrow> rat \<Rightarrow> viewer \<Rightarrow> viewer" where
  "handleWheel r deltaY s =
     (if scrollMode s \<or> \<not> overviewModalHidden s then s
      else if wheelThrottleTimer s then s
      else (let s1 = s\<lparr>wheelThrottleTimer := True\<rparr>
            in if 0 < deltaY then nextSlide r s1
               else if deltaY < 0 then previousSlide r s1
               else s1))"

text \<open>The callback of the throttle timer, 300 ms after it was set.\<close>

definition wheelThrottleTimeout :: "viewer \<Rightarrow> viewer" where
  "wheelThrottleTimeout s = s\<lparr>wheelThrottleTimer := False\<rparr>"

text \<open>
  A wheel event bubbles from its target to the document, where \<open>handleWheel\<close>
  listens. The overview modal and the share modal each have a wheel listener that
  calls \<open>stopPropagation\<close>, so an event whose target lies inside one of them never
  reaches the document.
\<close>

datatype wheel_target = InOverviewModal | InShareModal | Elsewhere

fun wheelEvent :: "rounding \<Rightarrow> wheel_target \<Rightarrow> rat \<Rightarrow> viewer \<Rightarrow> viewer" where
  "wheelEvent r InOverviewModal deltaY s = s"
| "wheelEvent r InShareModal deltaY s = s"
| "wheelEvent r Elsewhere deltaY s = handleWheel r deltaY s"

text \<open>
  The rectangle of the progress bar, from \<open>getBoundingClientRect\<close>; \<open>clientX\<close>
  is the event's, all finite numbers.
\<close>

record dom_rect =
  rect_left :: rat
  rect_width :: rat

definition handleProgressClick :: "rounding \<Rightarrow> rat \<Rightarrow> dom_rect \<Rightarrow> viewer \<Rightarrow> viewer" where
  "handleProgressClick r clientX rect s =
     (let x = jsub r (Fin clientX) (Fin (rect_left rect));
          percentage = jdiv r x (Fin (rect_width rect));
          targetSlide =
            jmax (jint 1)
              (jmin (jint (totalSlides s)) (jceil (jmul r percentage (jint (totalSlides s)))))
      in goToSlide r targetSlide s)"

definition showThumbnail :: "rounding \<Rightarrow> rat \<Rightarrow> dom_rect \<Rightarrow> viewer \<Rightarrow> viewer" where
  "showThumbnail r clientX rect s =
     (let x = jsub r (Fin clientX) (Fin (rect_left rect));
          percentage = jdiv r x (Fin (rect_width rect));
          targetSlide =
            jmax (jint 1)
              (jmin (jint (totalSlides s)) (jceil (jmul r percentage (jint (totalSlides s)))))
      in s\<lparr>thumbnailPreview :=
             \<lparr>thumbLeft = Fin clientX,
              thumbTransform = ''translateX(-50%)'',
              thumbSrc = js_index (slideImages s) (jsub r targetSlide (jint 1)),
              thumbNumber = (targetSlide, totalSlides s),
              thumbHidden = False\<rparr>\<rparr>)"

definition hideThumbnail :: "viewer \<Rightarrow> viewer" where
  "hideThumbnail s = s\<lparr>thumbnailPreview := (thumbnailPreview s)\<lparr>thumbHidden := True\<rparr>\<rparr>"

subsection \<open>Scroll mode\<close>

text \<open>
  What the browser's layout reports when the scroll position is read: the scroll
  offset and height of the container, and \<open>offsetTop\<close> and \<open>offsetHeight\<close> of
  the image at each index.
\<close>

record scroll_geom =
  scrollTop :: rat
  clientHeight :: rat
  slideBox :: "nat \<Rightarrow> rat \<times> rat"

definition scrollToCurrentSlide :: "rounding \<Rightarrow> viewer \<Rightarrow> viewer" where
  "scrollToCurrentSlide r s =
     (if 0 < length (scrollContainer s) \<and> jgt (currentSlide s) (jint 0)
      then (case js_index [0..<length (scrollContainer s)] (jsub r (currentSlide s) (jint 1)) of
              Some i \<Rightarrow> s\<lparr>scrolledIntoView := Some i\<rparr>
            | None \<Rightarrow> s)
      else s)"

definition updateCurrentSlideFromScroll :: "rounding \<Rightarrow> scroll_geom \<Rightarrow> viewer \<Rightarrow> viewer" where
  "updateCurrentSlideFromScroll r g s =
     (let centerY = jadd r (Fin (scrollTop g)) (jdiv r (Fin (clientHeight g)) (jint 2));
          step = (\<lambda>(closestSlide, minDistance) index.
                    (let slideCenter = jadd r (Fin (fst (slideBox g index)))
                                         (jdiv r (Fin (snd (slideBox g index))) (jint 2));
                         distance = jabs (jsub r slideCenter centerY)
                     in if jlt distance minDistance then (index + 1, distance)
                        else (closestSlide, minDistance)));
          closestSlide = fst (foldl step (1, PInf) [0..<length (scrollContainer s)])
      in s\<lparr>currentSlide := jint (int closestSlide)\<rparr>)"

definition updateScrollProgress :: "rounding \<Rightarrow> scroll_geom \<Rightarrow> viewer \<Rightarrow> viewer" where
  "updateScrollProgress r g s =
     (let s1 = updateCurrentSlideFromScroll r g s
      in s1\<lparr>progressWidth :=
              jmul r (jdiv r (currentSlide s1) (jint (totalSlides s1))) (jint 100)\<rparr>)"

definition enterScrollMode :: "rounding \<Rightarrow> viewer \<Rightarrow> viewer" where
  "enterScrollMode r s =
     scrollToCurrentSlide r
       (s\<lparr>scrollContainer :=
             map (\<lambda>i. (js_index (slideImages s) (jint (int i - 1)), i))
                 [1..<nat (totalSlides s) + 1],
           scrollContainerHidden := False\<rparr>)"

definition exitScrollMode :: "rounding \<Rightarrow> scroll_geom \<Rightarrow> viewer \<Rightarrow> viewer" where
  "exitScrollMode r g s =
     (let s1 = updateCurrentSlideFromScroll r g s;
          s2 = s1\<lparr>scrollContainerHidden := True\<rparr>
      in showSlide r (currentSlide s2) True s2)"

definition toggleScrollMode :: "rounding \<Rightarrow> scroll_geom \<Rightarrow> viewer \<Rightarrow> viewer" where
  "toggleScrollMode r g s =
     (let isScrollMode = \<not> scrollMode s;
          s1 = s\<lparr>scrollMode := isScrollMode\<rparr>
      in if isScrollMode
         then enterScrollMode r (s1\<lparr>slideModeIconHidden := False, scrollModeIconHidden := True\<rparr>)
         else exitScrollMode r g (s1\<lparr>slideModeIconHidden := True, scrollModeIconHidden := False\<rparr>))"

subsection \<open>Initialisation\<close>

text \<open>
  \<open>init\<close>, after the constructor. \<open>base_url\<close> is \<open>window.BASE_URL\<close>,
  \<open>response\<close> what \<open>loadMetadata\<close> fetches, \<open>innerWidth\<close> the width of the
  window. An exception of \<open>loadMetadata\<close> is caught and logged, and nothing else
  runs. The query string is read again after \<open>showSlide\<close> has replaced the URL.
\<close>

definition init ::
  "rounding \<Rightarrow> string option \<Rightarrow> deck_metadata option \<Rightarrow> int \<Rightarrow> scroll_geom \<Rightarrow> viewer \<Rightarrow> viewer" where
  "init r base_url response innerWidth g s =
     (case loadMetadata (js_or base_url []) response s of
        None \<Rightarrow> s
      | Some s1 \<Rightarrow>
          (let s2 = setupEventListeners s1;
               s3 = showSlide r (currentSlide s2) True s2;
               params = search s3;
               s4 = (if \<not> sp_has params ''page''
                     then s3\<lparr>search := sp_set ''page'' (QNum (currentSlide s3)) (search s3)\<rparr>
                     else s3);
               mode = sp_get params ''mode'';
               s5 = (if innerWidth \<le> 768 \<or> mode = Some (QStr ''scroll'')
                     then toggleScrollMode r g s4 else s4);
               isFromList = (sp_get params ''from'' = Some (QStr ''list''))
           in if \<not> isFromList then s5\<lparr>closeButtonDisplay := ''none''\<rparr> else s5))"

text \<open>A page before the script runs: paged, both modals hidden, nothing shown yet.\<close>

definition blank_img :: img where
  "blank_img = \<lparr>src = Some [], loading = False, display = []\<rparr>"

definition blank_page :: viewer where
  "blank_page =
     \<lparr>slideName = [], currentSlide = Fin 0, totalSlides = 0, slideImages = [],
      metadata = None, hideControlsTimer = False, wheelThrottleTimer = False,
      search = [], docTitle = ([], Fin 0), scrollMode = False, controlsVisible = False,
      slideLoadingDisplay = [], slidePrev = blank_img, slideCurrent = blank_img,
      slideNext = blank_img, progressWidth = Fin 0, navAreaPrevDisplay = [],
      navAreaNextDisplay = [], closeButtonDisplay = [], slideModeIconHidden = True,
      scrollModeIconHidden = False, scrollContainer = [], scrollContainerHidden = True,
      scrolledIntoView = None, overviewModalHidden = True, shareModalHidden = True,
      thumbnailPreview = \<lparr>thumbLeft = Fin 0, thumbTransform = [], thumbSrc = Some [],
                           thumbNumber = (Fin 0, 0), thumbHidden = True\<rparr>\<rparr>"

section \<open>The slide index (src/docs/js/index.js)\<close>

text \<open>
  What a \<open>fetch\<close> gives: the promise is rejected with an error (its message),
  or it resolves to a response with its \<open>ok\<close> flag and a body; \<open>response.json()\<close>
  on that body is rejected with an error, or resolves to the parsed value.
\<close>

datatype 'a body = Unparsable string | Json 'a

datatype 'a response = NetworkError string | Response bool "'a body"

record slide_summary =
  sum_name :: string
  sum_title :: "string option"
  sum_pageCount :: int
  sum_format :: "string option"
  sum_createdAt :: string

text \<open>
  The \<open>slides\<close> property of a listing: an array of summaries, or \<open>None\<close> when
  the parsed object has no such property.
\<close>

type_synonym listing = "slide_summary list option"

text \<open>
  The sources a listing can come from: the response of \<open>/api/slides\<close>, the
  preloaded \<open>window.__SLIDES_DATA__\<close> (\<open>None\<close> when it is not set), and the
  response of \<open>slides-index.json\<close>.
\<close>

record listing_env =
  api_slides :: "listing response"
  preloaded :: "listing option"
  index_file :: "listing response"

text \<open>
  The fields of a \<open>SlideIndex\<close> that the import reads and writes, and the page:
  for each element whether its class list has \<open>hidden\<close>, the text of the progress
  message, the summaries of the cards in the slides container in order, and the
  messages of the alerts shown so far.
\<close>

record index_state =
  isDevMode :: bool
  isImporting :: bool
  importModalHidden :: bool
  importFormHidden :: bool
  importProgressHidden :: bool
  progressMessage :: string
  emptyStateHidden :: bool
  slidesContainerHidden :: bool
  cards :: "slide_summary list"
  alerts :: "string list"

text \<open>\<open>loadSlides\<close>: \<open>Inl\<close> carries the message of the error it throws.\<close>

definition loadSlides :: "listing_env \<Rightarrow> index_state \<Rightarrow> string + listing" where
  "loadSlides env s =
     (if isDevMode s
      then (case api_slides env of
              NetworkError m \<Rightarrow> Inl m
            | Response ok b \<Rightarrow>
                (if ok
                 then (case b of Unparsable m \<Rightarrow> Inl m | Json d \<Rightarrow> Inr d)
                 else Inl ''Failed to load slides from API''))
      else (case preloaded env of
              Some d \<Rightarrow> Inr d
            | None \<Rightarrow>
                (case index_file env of
                   NetworkError m \<Rightarrow> Inr (Some [])
                 | Response ok b \<Rightarrow>
                     (if ok
                      then (case b of Unparsable m \<Rightarrow> Inr (Some []) | Json d \<Rightarrow> Inr d)
                      else Inr (Some [])))))"

definition showEmptyState :: "index_state \<Rightarrow> index_state" where
  "showEmptyState s = s\<lparr>emptyStateHidden := False, slidesContainerHidden := True\<rparr>"

text \<open>
  \<open>renderSlides\<close>: reading \<open>length\<close> of \<open>undefined\<close> throws a TypeError
  before anything is changed.
\<close>

definition renderSlides :: "listing \<Rightarrow> index_state \<Rightarrow> string + index_state" where
  "renderSlides slides s =
     (case slides of
        None \<Rightarrow> Inl ''TypeError''
      | Some xs \<Rightarrow>
          (if length xs = 0 then Inr (showEmptyState s)
           else Inr (s\<lparr>emptyStateHidden := True, slidesContainerHidden := False,
                       cards := xs\<rparr>)))"

definition closeImportModal :: "index_state \<Rightarrow> index_state" where
  "closeImportModal s = s\<lparr>importModalHidden := True\<rparr>"

definition reloadSlides :: "listing_env \<Rightarrow> index_state \<Rightarrow> index_state" where
  "reloadSlides env s =
     (case loadSlides env s of
        Inl m \<Rightarrow> s
      | Inr slides \<Rightarrow> (case renderSlides slides s of Inl m \<Rightarrow> s | Inr s1 \<Rightarrow> s1))"

text \<open>
  \<open>handleImport\<close> runs in two parts. The first sends the request and ends by
  setting a timer of one second: \<open>CloseAndReload\<close> after a success, \<open>Recheck m\<close>
  in the \<open>catch\<close> block, \<open>m\<close> being the message of the caught error. The body of
  an import response is its \<open>error\<close> property, \<open>None\<close> when it has none.
\<close>

datatype import_timer = CloseAndReload | Recheck string

definition importRequest :: "string option response \<Rightarrow> index_state \<Rightarrow> index_state \<times> import_timer" where
  "importRequest resp s =
     (let s0 = s\<lparr>importFormHidden := True, importProgressHidden := False,
                  progressMessage := ''Importing PDF...'', isImporting := True\<rparr>;
          caught = (\<lambda>m. (s0\<lparr>progressMessage := ''Checking import status...''\<rparr>, Recheck m))
      in (case resp of
            NetworkError m \<Rightarrow> caught m
          | Response ok b \<Rightarrow>
              (if \<not> ok
               then (case b of
                       Unparsable m \<Rightarrow> caught m
                     | Json e \<Rightarrow> caught (js_or e ''Import failed''))
               else (case b of
                       Unparsable m \<Rightarrow> caught m
                     | Json e \<Rightarrow>
                         (s0\<lparr>progressMessage := ''Import successful!'',
                             isImporting := False\<rparr>, CloseAndReload)))))"

text \<open>The second part: the callback of the timer, with the listing it fetches.\<close>

definition importTimer :: "listing_env \<Rightarrow> import_timer \<Rightarrow> index_state \<Rightarrow> index_state" where
  "importTimer env t s =
     (case t of
        CloseAndReload \<Rightarrow> reloadSlides env (closeImportModal s)
      | Recheck m \<Rightarrow>
          (let failed = s\<lparr>alerts := alerts s @ [''Import failed: '' @ m],
                          importFormHidden := False, importProgressHidden := True\<rparr>;
               s1 = (case loadSlides env s of
                       Inl e \<Rightarrow> failed
                     | Inr slides \<Rightarrow>
                         (case renderSlides slides s of
                            Inl e \<Rightarrow> failed
                          | Inr s2 \<Rightarrow> closeImportModal s2))
           in s1\<lparr>isImporting := False\<rparr>))"

text \<open>Both parts, when nothing else happens on the page before the timer fires.\<close>

definition handleImport :: "listing_env \<Rightarrow> string option response \<Rightarrow> index_state \<Rightarrow> index_state" where
  "handleImport env resp s = (case importRequest resp s of (s1, t) \<Rightarrow> importTimer env t s1)"

text \<open>
  The import request fails: every way into the \<open>catch\<close> block of \<open>handleImport\<close>.
\<close>

fun request_failed :: "string option response \<Rightarrow> bool" where
  "request_failed (NetworkError m) = True"
| "request_failed (Response ok (Unparsable m)) = True"
| "request_failed (Response ok (Json e)) = (\<not> ok)"

text \<open>The re-poll's list loads and renders: neither step throws.\<close>

definition repoll_ok :: "listing_env \<Rightarrow> index_state \<Rightarrow> bool" where
  "repoll_ok env s =
     (case loadSlides env s of
        Inl m \<Rightarrow> False
      | Inr slides \<Rightarrow> (case renderSlides slides s of Inl m \<Rightarrow> False | Inr s1 \<Rightarrow> True))"

text \<open>The import dialog as \<open>openImportModal\<close> leaves it, in dev mode, with no card.\<close>

definition open_dialog :: index_state where
  "open_dialog =
     \<lparr>isDevMode = True, isImporting = False, importModalHidden = False,
      importFormHidden = False, importProgressHidden = True, progressMessage = [],
      emptyStateHidden = False, slidesContainerHidden = True, cards = [], alerts = []\<rparr>"

section \<open>Concrete runs\<close>

text \<open>
  A deck of five PNG pages opened on a wide window at \<open>/deck\<close> with the query
  \<open>query0\<close>, under exact arithmetic; the layout is not read on this path unless
  the page starts in scroll mode.
\<close>

definition deck5 :: deck_metadata where
  "deck5 = \<lparr>md_name = ''deck'', md_title = None, pageCount = 5, md_format = Some ''png''\<rparr>"

definition flat_layout :: scroll_geom where
  "flat_layout = \<lparr>scrollTop = 0, clientHeight = 600, slideBox = (\<lambda>i. (600 * of_nat i, 600))\<rparr>"

definition open_deck5 :: "(string \<times> string) list \<Rightarrow> viewer" where
  "open_deck5 query0 =
     init (\<lambda>q. q) None (Some deck5) 1024 flat_layout
       (SlidefViewer_new ''/deck'' query0 blank_page)"

text \<open>
  Two answers to the re-poll of the listing in dev mode: the API lists one deck, and
  the API answers with an error status.
\<close>

definition new_deck :: slide_summary where
  "new_deck = \<lparr>sum_name = ''talk'', sum_title = None, sum_pageCount = 12,
                sum_format = None, sum_createdAt = ''2025-01-01''\<rparr>"

definition api_lists_new_deck :: listing_env where
  "api_lists_new_deck =
     \<lparr>api_slides = Response True (Json (Some [new_deck])), preloaded = None,
      index_file = NetworkError ''Failed to fetch''\<rparr>"

definition api_down :: listing_env where
  "api_down =
     \<lparr>api_slides = Response False (Json None), preloaded = None,
      index_file = NetworkError ''Failed to fetch''\<rparr>"

section \<open>The progress bar in the words of the specification\<close>

text \<open>
  The specification maps a position on the progress bar to the page
  \<open>ceil(fraction \<times> totalSlides)\<close>, clamped to \<open>[1, totalSlides]\<close>. Here
  \<open>product\<close> is \<open>fraction \<times> totalSlides\<close> and the result is an integer.
\<close>

definition target_page :: "rat \<Rightarrow> int \<Rightarrow> int" where
  "target_page product pages = max 1 (min pages \<lceil>product\<rceil>)"

section \<open>Properties of the theme manager\<close>

lemmas theme_defs =
  toggle_def apply_theme_def updateIcons_def setStoredTheme_def getStoredTheme_def
  onSystemThemeChange_def ThemeManager_new_def getSystemTheme_def
  THEME_DARK_def THEME_LIGHT_def THEME_KEY_def

text \<open>
  A state is a fixed point of \<open>apply\<close> exactly when the attribute shows the current
  theme and the icons, where both exist, show it too.
\<close>

lemma apply_theme_fixed_iff:
  "apply_theme s = s \<longleftrightarrow>
     dataTheme s = Some (currentTheme s) \<and>
     (\<forall>a b. sunIcon s = Some a \<and> moonIcon s = Some b \<longrightarrow>
        a = (currentTheme s = THEME_DARK) \<and> b = (currentTheme s \<noteq> THEME_DARK))"
proof (cases s)
  case (fields ct ls dt su mo)
  show ?thesis
    by (cases su; cases mo) (auto simp: fields apply_theme_def updateIcons_def)
qed

lemma apply_theme_idem: "apply_theme (apply_theme s) = apply_theme s"
  by (cases "sunIcon s"; cases "moonIcon s")
     (simp_all add: apply_theme_def updateIcons_def)

text \<open>
  Every operation of the manager ends with \<open>apply\<close>, so the states the page can be
  in after construction are fixed points of it.
\<close>

lemma applied_after_new: "apply_theme (ThemeManager_new d page) = ThemeManager_new d page"
  by (simp add: ThemeManager_new_def apply_theme_idem)

lemma applied_after_toggle: "apply_theme (toggle s) = toggle s"
  by (simp add: toggle_def Let_def apply_theme_idem)

lemma applied_after_change:
  "apply_theme s = s \<Longrightarrow> apply_theme (onSystemThemeChange m s) = onSystemThemeChange m s"
  by (simp add: onSystemThemeChange_def apply_theme_idem)

lemma toggle_twice_state:
  assumes "currentTheme s = THEME_DARK \<or> currentTheme s = THEME_LIGHT"
      and "apply_theme s = s"
  shows "toggle (toggle s) = s\<lparr>localStorage := (localStorage s)(THEME_KEY \<mapsto> currentTheme s)\<rparr>"
proof (cases s)
  case (fields ct ls dt su mo)
  from assms(2) have dt: "dt = Some ct"
    and ic: "\<And>a b. su = Some a \<Longrightarrow> mo = Some b \<Longrightarrow>
               a = (ct = THEME_DARK) \<and> b = (ct \<noteq> THEME_DARK)"
    unfolding apply_theme_fixed_iff fields by simp_all
  from assms(1) have ct: "ct = THEME_DARK \<or> ct = THEME_LIGHT"
    by (simp add: fields)
  note defs = fields toggle_def apply_theme_def updateIcons_def setStoredTheme_def Let_def
    THEME_DARK_def THEME_LIGHT_def
  show ?thesis
  proof (cases su)
    case None
    then show ?thesis using ct dt by (auto simp: defs)
  next
    case sun: (Some a)
    show ?thesis
    proof (cases mo)
      case None
      then show ?thesis using ct dt sun by (auto simp: defs)
    next
      case (Some b)
      with sun ic have "a = (ct = THEME_DARK)" "b = (ct \<noteq> THEME_DARK)"
        by blast+
      then show ?thesis using ct dt Some sun by (auto simp: defs)
    qed
  qed
qed

text \<open>
  C4. On a change of the OS preference: with nothing persisted under the theme key at
  the time of the event, the current and the applied theme become the theme of the new
  preference; with a persisted value (a non-empty string, as every value that \<open>toggle\<close>
  writes is), the event changes nothing at all. The listener tests the stored value for
  truthiness, so an empty string under the key counts as nothing persisted.
\<close>

theorem os_preference_change:
  "(getStoredTheme s = None \<longrightarrow>
      dataTheme (onSystemThemeChange m s) = Some (if m then THEME_DARK else THEME_LIGHT) \<and>
      currentTheme (onSystemThemeChange m s) = (if m then THEME_DARK else THEME_LIGHT))
   \<and> (\<forall>v. getStoredTheme s = Some v \<and> v \<noteq> [] \<longrightarrow> onSystemThemeChange m s = s)
   \<and> (getStoredTheme s = Some [] \<longrightarrow>
      dataTheme (onSystemThemeChange m s) = Some (if m then THEME_DARK else THEME_LIGHT))"
  by (auto simp: theme_defs split: option.splits)

theorem os_preference_change_witness:
  "getStoredTheme (ThemeManager_new False fresh_page) = None
   \<and> dataTheme (ThemeManager_new False fresh_page) = Some ''light''
   \<and> dataTheme (onSystemThemeChange True (ThemeManager_new False fresh_page)) = Some ''dark''
   \<and> getStoredTheme (toggle (ThemeManager_new True fresh_page)) = Some ''light''
   \<and> onSystemThemeChange True (toggle (ThemeManager_new True fresh_page))
       = toggle (ThemeManager_new True fresh_page)"
  using os_preference_change [of "ThemeManager_new False fresh_page" True]
        os_preference_change [of "toggle (ThemeManager_new True fresh_page)" True]
  by (simp add: theme_defs fresh_page_def Let_def)

text \<open>
  C5, as the code has it. From a state whose current theme is dark or light and has
  been applied, two calls of \<open>toggle\<close> restore the current theme, the applied
  attribute and the icons: the state is the original one except for the storage, which
  now holds the current theme under the theme key. The persisted value is therefore the
  original one exactly when the original state had that theme persisted, and is not
  restored when nothing was persisted.
\<close>

theorem toggle_twice_restores:
  assumes "currentTheme s = THEME_DARK \<or> currentTheme s = THEME_LIGHT"
      and "apply_theme s = s"
  shows "toggle (toggle s) = s\<lparr>localStorage := (localStorage s)(THEME_KEY \<mapsto> currentTheme s)\<rparr>
       \<and> currentTheme (toggle (toggle s)) = currentTheme s
       \<and> dataTheme (toggle (toggle s)) = dataTheme s
       \<and> getStoredTheme (toggle (toggle s)) = Some (currentTheme s)
       \<and> (getStoredTheme (toggle (toggle s)) = getStoredTheme s
            \<longleftrightarrow> getStoredTheme s = Some (currentTheme s))"
proof -
  have eq: "toggle (toggle s) = s\<lparr>localStorage := (localStorage s)(THEME_KEY \<mapsto> currentTheme s)\<rparr>"
    using assms by (rule toggle_twice_state)
  have st: "getStoredTheme (toggle (toggle s)) = Some (currentTheme s)"
    by (simp add: eq getStoredTheme_def)
  show ?thesis
    using st by (auto simp: eq)
qed

theorem toggle_twice_restores_witness:
  "currentTheme (toggle (ThemeManager_new True fresh_page)) = ''light''
   \<and> getStoredTheme (toggle (ThemeManager_new True fresh_page)) = Some ''light''
   \<and> toggle (toggle (toggle (ThemeManager_new True fresh_page)))
       = toggle (ThemeManager_new True fresh_page)"
proof -
  let ?s = "toggle (ThemeManager_new True fresh_page)"
  have ct: "currentTheme ?s = ''light''"
    by (simp add: theme_defs fresh_page_def Let_def)
  have st: "localStorage ?s THEME_KEY = Some ''light''"
    by (simp add: theme_defs fresh_page_def Let_def)
  have h1: "currentTheme ?s = THEME_DARK \<or> currentTheme ?s = THEME_LIGHT"
    by (simp add: ct THEME_LIGHT_def)
  have "(localStorage ?s)(THEME_KEY \<mapsto> currentTheme ?s) = localStorage ?s"
    using st ct by (simp add: map_upd_triv)
  then have "toggle (toggle ?s) = ?s"
    using toggle_twice_restores [OF h1 applied_after_toggle] by simp
  with ct st show ?thesis
    by (simp add: getStoredTheme_def)
qed

text \<open>
  C5 as stated fails on a first visit: nothing is persisted before, and the theme is
  persisted after two toggles.
\<close>

theorem toggle_twice_counterexample:
  "getStoredTheme (ThemeManager_new False fresh_page) = None
   \<and> getStoredTheme (toggle (toggle (ThemeManager_new False fresh_page))) = Some ''light''"
  by (simp add: theme_defs fresh_page_def Let_def)

text \<open>
  C10. After \<open>toggle\<close>, whatever the current theme was before, the current theme is
  dark or light, the persisted value and the applied attribute both equal it, and any
  former value other than dark has become dark.
\<close>

theorem toggle_normalises:
  "(currentTheme (toggle s) = THEME_DARK \<or> currentTheme (toggle s) = THEME_LIGHT)
   \<and> getStoredTheme (toggle s) = Some (currentTheme (toggle s))
   \<and> dataTheme (toggle s) = Some (currentTheme (toggle s))
   \<and> (currentTheme s \<noteq> THEME_DARK \<longrightarrow> currentTheme (toggle s) = THEME_DARK)"
  by (auto simp: theme_defs Let_def split: option.splits)

theorem toggle_normalises_witness:
  "currentTheme (ThemeManager_new False (fresh_page\<lparr>localStorage := [THEME_KEY \<mapsto> ''solarized'']\<rparr>))
     = ''solarized''
   \<and> currentTheme (toggle (ThemeManager_new False
         (fresh_page\<lparr>localStorage := [THEME_KEY \<mapsto> ''solarized'']\<rparr>))) = ''dark''
   \<and> getStoredTheme (toggle (ThemeManager_new False
         (fresh_page\<lparr>localStorage := [THEME_KEY \<mapsto> ''solarized'']\<rparr>))) = Some ''dark''
   \<and> dataTheme (toggle (ThemeManager_new False
         (fresh_page\<lparr>localStorage := [THEME_KEY \<mapsto> ''solarized'']\<rparr>))) = Some ''dark''"
proof -
  let ?s = "ThemeManager_new False (fresh_page\<lparr>localStorage := [THEME_KEY \<mapsto> ''solarized'']\<rparr>)"
  have ct: "currentTheme ?s = ''solarized''"
    by (simp add: theme_defs fresh_page_def)
  then have "currentTheme ?s \<noteq> THEME_DARK"
    by (simp add: THEME_DARK_def)
  with toggle_normalises [of ?s] ct show ?thesis
    by (simp add: THEME_DARK_def)
qed

section \<open>Properties of the viewer\<close>

subsection \<open>Numbers and query strings\<close>

lemma jmin_Fin [simp]: "jmin (Fin a) (Fin b) = Fin (min a b)"
  by (simp add: jmin_def min_def)

lemma jmax_Fin [simp]: "jmax (Fin a) (Fin b) = Fin (max a b)"
  by (simp add: jmax_def max_def)

lemma jmin_jint: "jmin (jint a) (jint b) = jint (min a b)"
  by (simp add: jint_def min_def)

lemma jmax_jint: "jmax (jint a) (jint b) = jint (max a b)"
  by (simp add: jint_def max_def)

lemma jmax_NaN [simp]: "jmax a NaN = NaN" "jmax NaN a = NaN"
  by (simp_all add: jmax_def)

lemma jmin_NaN [simp]: "jmin a NaN = NaN" "jmin NaN a = NaN"
  by (simp_all add: jmin_def)

text \<open>
  Clamping a clamped number again changes nothing, in either order of the arguments
  of \<open>Math.min\<close>, for every bound and every number.
\<close>

lemma clamp_again:
  "jmax (jint 1) (jmin (jmax (jint 1) (jmin (jint t) c)) (jint t)) = jmax (jint 1) (jmin (jint t) c)"
  by (cases c) (auto simp: jint_def jmax_def jmin_def)

lemma sp_set_mem: "(k, v) \<in> set (sp_set k v q)"
  by (induction q) auto

lemma sp_has_sp_set: "sp_has (sp_set k v q) k"
  unfolding sp_has_def using sp_set_mem [of k v q] by force

lemma sp_get_sp_set: "sp_get (sp_set k v q) k = Some v"
  by (induction q) (auto simp: sp_get_def)

lemma map_of_filter_other:
  "k' \<noteq> k \<Longrightarrow> map_of (filter (\<lambda>p. fst p \<noteq> k) q) k' = map_of q k'"
  by (induction q) auto

lemma sp_get_sp_set_other: "k' \<noteq> k \<Longrightarrow> sp_get (sp_set k v q) k' = sp_get q k'"
  by (induction q) (auto simp: sp_get_def map_of_filter_other)

subsection \<open>What \<open>showSlide\<close> writes\<close>

lemma showSlide_currentSlide:
  "currentSlide (showSlide r n u s) = jmax (jint 1) (jmin n (jint (totalSlides s)))"
  by (simp add: showSlide_def Let_def)

lemma showSlide_totalSlides: "totalSlides (showSlide r n u s) = totalSlides s"
  by (simp add: showSlide_def Let_def)

lemma showSlide_scrollMode: "scrollMode (showSlide r n u s) = scrollMode s"
  by (simp add: showSlide_def Let_def)

lemma showSlide_search:
  "search (showSlide r n True s) =
     sp_set ''page'' (QNum (jmax (jint 1) (jmin n (jint (totalSlides s))))) (search s)"
  by (simp add: showSlide_def Let_def)

lemma showSlide_progress:
  "progressWidth (showSlide r n u s) =
     jmul r (jdiv r (jmax (jint 1) (jmin n (jint (totalSlides s)))) (jint (totalSlides s)))
       (jint 100)"
  by (simp add: showSlide_def Let_def)

lemma showSlide_src:
  "src (slideCurrent (showSlide r n u s)) =
     js_index (slideImages s) (jsub r (jmax (jint 1) (jmin n (jint (totalSlides s)))) (jint 1))"
  by (simp add: showSlide_def Let_def)

text \<open>
  With at least one page, \<open>showSlide\<close> of any number other than \<open>NaN\<close>
  leaves the current slide between 1 and the number of pages, and with the history
  update the \<open>page\<close> parameter is the current slide.
\<close>

lemma showSlide_clamps:
  assumes "1 \<le> totalSlides s" and "n \<noteq> NaN"
  shows "\<exists>q. currentSlide (showSlide r n u s) = Fin q \<and> 1 \<le> q \<and> q \<le> of_int (totalSlides s)"
  using assms by (cases n) (auto simp: showSlide_currentSlide jint_def jmin_def jmax_def)

lemma showSlide_syncs_url:
  "sp_get (search (showSlide r n True s)) ''page'' = Some (QNum (currentSlide (showSlide r n True s)))"
  by (simp add: showSlide_search showSlide_currentSlide sp_get_sp_set)

text \<open>
  Navigating to a page \<open>n\<close> of the deck makes it the current slide, sets the progress
  to \<open>n / totalSlides * 100\<close> and the \<open>page\<close> parameter to \<open>n\<close>, from every state.
\<close>

lemma goToSlide_in_range:
  assumes "1 \<le> n" and "n \<le> totalSlides s"
  shows "currentSlide (goToSlide r (jint n) s) = jint n"
    and "progressWidth (goToSlide r (jint n) s) =
           jmul r (jdiv r (jint n) (jint (totalSlides s))) (jint 100)"
    and "sp_get (search (goToSlide r (jint n) s)) ''page'' = Some (QNum (jint n))"
  using assms
  by (simp_all add: goToSlide_def showSlide_currentSlide showSlide_progress showSlide_search
      sp_get_sp_set jmin_jint jmax_jint)

text \<open>
  C1 does not hold of the code. A \<open>page\<close> parameter without a leading number parses to
  \<open>NaN\<close>, which \<open>Math.min\<close> and \<open>Math.max\<close> pass on: after initialisation of a
  deck of five pages the current slide is \<open>NaN\<close>, not a page of the deck, no image is
  shown, the progress and the \<open>page\<close> parameter are \<open>NaN\<close>, and previous and next
  do nothing.
\<close>

theorem non_numeric_page_is_not_clamped:
  "totalSlides (open_deck5 [(''page'', ''abc'')]) = 5
   \<and> currentSlide (open_deck5 [(''page'', ''abc'')]) = NaN
   \<and> src (slideCurrent (open_deck5 [(''page'', ''abc'')])) = None
   \<and> progressWidth (open_deck5 [(''page'', ''abc'')]) = NaN
   \<and> sp_get (search (open_deck5 [(''page'', ''abc'')])) ''page'' = Some (QNum NaN)
   \<and> previousSlide (\<lambda>q. q) (open_deck5 [(''page'', ''abc'')]) = open_deck5 [(''page'', ''abc'')]
   \<and> nextSlide (\<lambda>q. q) (open_deck5 [(''page'', ''abc'')]) = open_deck5 [(''page'', ''abc'')]"
  by code_simp

text \<open>
  C8. At the first slide \<open>previousSlide\<close> returns the state as it is, and at the last
  slide \<open>nextSlide\<close> does.
\<close>

theorem edges_are_no_ops:
  "(currentSlide s = jint 1 \<longrightarrow> previousSlide r s = s)
   \<and> (currentSlide s = jint (totalSlides s) \<longrightarrow> nextSlide r s = s)"
  by (simp add: previousSlide_def nextSlide_def jgt_def jint_def)

theorem edges_are_no_ops_witness:
  "currentSlide (open_deck5 []) = jint 1
   \<and> previousSlide (\<lambda>q. q) (open_deck5 []) = open_deck5 []
   \<and> currentSlide (open_deck5 [(''page'', ''5'')]) = jint (totalSlides (open_deck5 [(''page'', ''5'')]))
   \<and> nextSlide (\<lambda>q. q) (open_deck5 [(''page'', ''5'')]) = open_deck5 [(''page'', ''5'')]"
proof -
  have a: "currentSlide (open_deck5 []) = jint 1"
    by code_simp
  have b: "currentSlide (open_deck5 [(''page'', ''5'')])
             = jint (totalSlides (open_deck5 [(''page'', ''5'')]))"
    by code_simp
  from a b edges_are_no_ops [of "open_deck5 []" "\<lambda>q. q"]
    edges_are_no_ops [of "open_deck5 [(''page'', ''5'')]" "\<lambda>q. q"]
  show ?thesis by simp
qed

subsection \<open>Input handlers\<close>

text \<open>
  The gating the code has. \<open>handleWheel\<close> returns the state as it is in scroll mode
  and while the overview modal is open. Escape with the overview modal open hides that
  modal and changes nothing else; with only the share modal open it hides the share
  modal and changes nothing else; with no modal open it changes nothing.
\<close>

lemma handleWheel_gated:
  "scrollMode s \<or> \<not> overviewModalHidden s \<Longrightarrow> handleWheel r d s = s"
  by (simp add: handleWheel_def)

lemma escape_closes_topmost:
  "handleKeyPress r ''Escape'' s =
     (if \<not> overviewModalHidden s then s\<lparr>overviewModalHidden := True\<rparr>
      else if \<not> shareModalHidden s then s\<lparr>shareModalHidden := True\<rparr>
      else s)"
  by (simp add: handleKeyPress_def closeOverviewModal_def closeShareModal_def)

text \<open>
  C2 does not hold of the code: the navigation keys are not suppressed.
  \<open>handleKeyPress\<close> tests neither scroll mode nor the modals before it navigates,
  where \<open>handleWheel\<close> beside it tests scroll mode and the overview modal. On a deck
  of five pages at slide 1, the right arrow key moves to slide 2 and rewrites the
  \<open>page\<close> parameter to 2 in scroll mode, while the overview modal is open, and
  while the share modal is open; in scroll mode the End key moves to slide 5. In each
  of these states a wheel event at the document or Escape leaves the current slide at 1.
\<close>

theorem navigation_keys_are_not_gated:
  "scrollMode (open_deck5 [(''mode'', ''scroll'')])
   \<and> currentSlide (open_deck5 [(''mode'', ''scroll'')]) = Fin 1
   \<and> currentSlide (handleKeyPress (\<lambda>q. q) ''ArrowRight'' (open_deck5 [(''mode'', ''scroll'')]))
       = Fin 2
   \<and> sp_get (search (handleKeyPress (\<lambda>q. q) ''ArrowRight'' (open_deck5 [(''mode'', ''scroll'')])))
         ''page'' = Some (QNum (Fin 2))
   \<and> currentSlide (handleKeyPress (\<lambda>q. q) ''End'' (open_deck5 [(''mode'', ''scroll'')]))
       = Fin 5
   \<and> currentSlide (handleWheel (\<lambda>q. q) 120 (open_deck5 [(''mode'', ''scroll'')])) = Fin 1
   \<and> currentSlide (open_deck5 []) = Fin 1
   \<and> \<not> overviewModalHidden ((open_deck5 [])\<lparr>overviewModalHidden := False\<rparr>)
   \<and> currentSlide (handleKeyPress (\<lambda>q. q) ''ArrowRight''
        ((open_deck5 [])\<lparr>overviewModalHidden := False\<rparr>)) = Fin 2
   \<and> sp_get (search (handleKeyPress (\<lambda>q. q) ''ArrowRight''
        ((open_deck5 [])\<lparr>overviewModalHidden := False\<rparr>))) ''page'' = Some (QNum (Fin 2))
   \<and> currentSlide (handleWheel (\<lambda>q. q) 120
        ((open_deck5 [])\<lparr>overviewModalHidden := False\<rparr>)) = Fin 1
   \<and> currentSlide (handleKeyPress (\<lambda>q. q) ''Escape''
        ((open_deck5 [])\<lparr>overviewModalHidden := False\<rparr>)) = Fin 1
   \<and> overviewModalHidden (handleKeyPress (\<lambda>q. q) ''Escape''
        ((open_deck5 [])\<lparr>overviewModalHidden := False\<rparr>))
   \<and> \<not> shareModalHidden ((open_deck5 [])\<lparr>shareModalHidden := False\<rparr>)
   \<and> currentSlide (handleKeyPress (\<lambda>q. q) ''ArrowRight''
        ((open_deck5 [])\<lparr>shareModalHidden := False\<rparr>)) = Fin 2
   \<and> shareModalHidden (handleKeyPress (\<lambda>q. q) ''Escape''
        ((open_deck5 [])\<lparr>shareModalHidden := False\<rparr>))"
  by code_simp

subsection \<open>The progress bar\<close>

text \<open>
  On a bar whose width is not zero, the target that both handlers compute is the
  specification's page for the product as the arithmetic rounds it.
\<close>

lemma progress_target:
  assumes "w \<noteq> 0"
  shows "jmax (jint 1) (jmin (jint t)
           (jceil (jmul r (jdiv r (jsub r (Fin cx) (Fin l)) (Fin w)) (jint t))))
         = jint (target_page (r (r (r (cx - l) / w) * of_int t)) t)"
  using assms by (simp add: jsub_def jint_def target_page_def)

lemma target_page_range: "1 \<le> t \<Longrightarrow> 1 \<le> target_page p t \<and> target_page p t \<le> t"
  by (simp add: target_page_def)

text \<open>
  A click at 42 percent of the bar on ten pages: every rounding whose relative error
  is at most one percent (that of doubles is below \<open>2^-52\<close>) leaves the product
  between 4 and 5.
\<close>

lemma fraction_042_product:
  fixes r :: rounding and x w :: rat
  assumes acc: "\<And>q. \<bar>r q - q\<bar> \<le> \<bar>q\<bar> / 100"
      and w: "0 < w" and frac: "x / w = 42 / 100"
  shows "4 < r (r (r x / w) * 10) \<and> r (r (r x / w) * 10) \<le> 5"
proof -
  from w frac have x: "x = 42 / 100 * w"
    by (simp add: field_simps)
  have xpos: "0 < x" using x w by simp
  from acc [of x] xpos have "\<bar>r x - x\<bar> \<le> x / 100"
    by simp
  then have a: "99 / 100 * x \<le> r x" "r x \<le> 101 / 100 * x"
    by linarith+
  define p where "p = r x / w"
  from a x have "4158 / 10000 * w \<le> r x" "r x \<le> 4242 / 10000 * w"
    by linarith+
  with w have p: "4158 / 10000 \<le> p" "p \<le> 4242 / 10000"
    unfolding p_def by (simp_all add: pos_le_divide_eq pos_divide_le_eq)
  then have ppos: "0 < p" by simp
  from acc [of p] ppos have "\<bar>r p - p\<bar> \<le> p / 100"
    by simp
  then have b: "99 / 100 * p \<le> r p" "r p \<le> 101 / 100 * p"
    by linarith+
  define m where "m = r p * 10"
  from b p have m: "411642 / 100000 \<le> m" "m \<le> 428442 / 100000"
    unfolding m_def by linarith+
  then have mpos: "0 < m" by simp
  from acc [of m] mpos have "\<bar>r m - m\<bar> \<le> m / 100"
    by simp
  then have c: "99 / 100 * m \<le> r m" "r m \<le> 101 / 100 * m"
    by linarith+
  from c m have "4 < r m" "r m \<le> 5"
    by linarith+
  then show ?thesis
    by (simp add: m_def p_def)
qed

text \<open>
  C3. A click at \<open>clientX\<close> on a bar at \<open>rect_left\<close> of a width other than zero
  makes the specification's page the current slide and the \<open>page\<close> parameter; with
  at least one page it lies between 1 and the number of pages; and a click at 42 percent
  of the bar on ten pages goes to page 5.
\<close>

theorem progress_click_target:
  assumes "rect_width rect \<noteq> 0"
  shows "currentSlide (handleProgressClick r clientX rect s)
           = jint (target_page
               (r (r (r (clientX - rect_left rect) / rect_width rect) * of_int (totalSlides s)))
               (totalSlides s))
       \<and> sp_get (search (handleProgressClick r clientX rect s)) ''page''
           = Some (QNum (currentSlide (handleProgressClick r clientX rect s)))
       \<and> (1 \<le> totalSlides s \<longrightarrow>
            (\<exists>n. currentSlide (handleProgressClick r clientX rect s) = jint n
                 \<and> 1 \<le> n \<and> n \<le> totalSlides s))
       \<and> ((\<forall>q. \<bar>r q - q\<bar> \<le> \<bar>q\<bar> / 100) \<and> 0 < rect_width rect
            \<and> (clientX - rect_left rect) / rect_width rect = 42 / 100 \<and> totalSlides s = 10
            \<longrightarrow> currentSlide (handleProgressClick r clientX rect s) = jint 5)"
proof -
  let ?p = "r (r (r (clientX - rect_left rect) / rect_width rect) * of_int (totalSlides s))"
  let ?s' = "handleProgressClick r clientX rect s"
  have "currentSlide ?s' =
      jmax (jint 1) (jmin (jint (totalSlides s))
        (jceil (jmul r (jdiv r (jsub r (Fin clientX) (Fin (rect_left rect)))
                          (Fin (rect_width rect))) (jint (totalSlides s)))))"
    by (simp add: handleProgressClick_def goToSlide_def Let_def showSlide_currentSlide
        clamp_again)
  also have "\<dots> = jint (target_page ?p (totalSlides s))"
    using assms by (rule progress_target)
  finally have cur: "currentSlide ?s' = jint (target_page ?p (totalSlides s))" .
  have url: "sp_get (search ?s') ''page'' = Some (QNum (currentSlide ?s'))"
    by (simp add: handleProgressClick_def goToSlide_def Let_def showSlide_syncs_url)
  have range: "1 \<le> totalSlides s \<longrightarrow>
      (\<exists>n. currentSlide ?s' = jint n \<and> 1 \<le> n \<and> n \<le> totalSlides s)"
    using cur target_page_range [of "totalSlides s" ?p] by blast
  have scen: "(\<forall>q. \<bar>r q - q\<bar> \<le> \<bar>q\<bar> / 100) \<and> 0 < rect_width rect
      \<and> (clientX - rect_left rect) / rect_width rect = 42 / 100 \<and> totalSlides s = 10
      \<longrightarrow> currentSlide ?s' = jint 5"
  proof (intro impI, elim conjE)
    assume acc: "\<forall>q. \<bar>r q - q\<bar> \<le> \<bar>q\<bar> / 100" and w: "0 < rect_width rect"
      and fr: "(clientX - rect_left rect) / rect_width rect = 42 / 100"
      and t: "totalSlides s = 10"
    from acc have acc': "\<And>q. \<bar>r q - q\<bar> \<le> \<bar>q\<bar> / 100" by blast
    from fraction_042_product [OF acc' w fr]
    have "\<lceil>r (r (r (clientX - rect_left rect) / rect_width rect) * 10)\<rceil> = 5"
      by (simp add: ceiling_eq_iff)
    then show "currentSlide ?s' = jint 5"
      by (simp add: cur t target_page_def)
  qed
  from cur url range scen show ?thesis by blast
qed

theorem progress_click_target_witness:
  "rect_width \<lparr>rect_left = 100, rect_width = 200\<rparr> \<noteq> 0
   \<and> totalSlides ((open_deck5 [])\<lparr>totalSlides := 10\<rparr>) = 10
   \<and> (184 - rect_left \<lparr>rect_left = 100, rect_width = 200\<rparr>)
        / rect_width \<lparr>rect_left = 100, rect_width = 200\<rparr> = 42 / 100
   \<and> currentSlide (handleProgressClick (\<lambda>q. q) 184 \<lparr>rect_left = 100, rect_width = 200\<rparr>
        ((open_deck5 [])\<lparr>totalSlides := 10\<rparr>)) = jint 5
   \<and> sp_get (search (handleProgressClick (\<lambda>q. q) 184 \<lparr>rect_left = 100, rect_width = 200\<rparr>
        ((open_deck5 [])\<lparr>totalSlides := 10\<rparr>))) ''page'' = Some (QNum (jint 5))"
proof -
  let ?rect = "\<lparr>rect_left = 100, rect_width = 200\<rparr>"
  let ?s = "(open_deck5 [])\<lparr>totalSlides := 10\<rparr>"
  have w: "rect_width ?rect \<noteq> 0" by simp
  have t: "totalSlides ?s = 10" by simp
  have fr: "(184 - rect_left ?rect) / rect_width ?rect = 42 / 100" by simp
  have acc: "\<forall>q::rat. \<bar>(\<lambda>q. q) q - q\<bar> \<le> \<bar>q\<bar> / 100" by simp
  have tp: "target_page (21 / 5) 10 = 5" by code_simp
  from progress_click_target [OF w, of "\<lambda>q. q" 184 ?s] acc fr t tp
  have "currentSlide (handleProgressClick (\<lambda>q. q) 184 ?rect ?s) = jint 5
      \<and> sp_get (search (handleProgressClick (\<lambda>q. q) 184 ?rect ?s)) ''page''
          = Some (QNum (currentSlide (handleProgressClick (\<lambda>q. q) 184 ?rect ?s)))"
    by simp
  with w t fr show ?thesis by simp
qed

text \<open>
  C9. For every position, the page in the hover preview is the page a click at that
  position makes current, and the preview's image is the image the click shows; on a
  bar whose width is not zero both are the specification's page.
\<close>

theorem thumbnail_matches_click:
  "fst (thumbNumber (thumbnailPreview (showThumbnail r clientX rect s)))
     = currentSlide (handleProgressClick r clientX rect s)
   \<and> thumbSrc (thumbnailPreview (showThumbnail r clientX rect s))
       = src (slideCurrent (handleProgressClick r clientX rect s))
   \<and> (rect_width rect \<noteq> 0 \<longrightarrow>
        fst (thumbNumber (thumbnailPreview (showThumbnail r clientX rect s)))
          = jint (target_page
              (r (r (r (clientX - rect_left rect) / rect_width rect) * of_int (totalSlides s)))
              (totalSlides s)))"
proof -
  have a: "fst (thumbNumber (thumbnailPreview (showThumbnail r clientX rect s)))
     = currentSlide (handleProgressClick r clientX rect s)"
    using clamp_again [of "totalSlides s"]
    by (simp add: showThumbnail_def handleProgressClick_def goToSlide_def Let_def
        showSlide_currentSlide)
  have b: "thumbSrc (thumbnailPreview (showThumbnail r clientX rect s))
       = src (slideCurrent (handleProgressClick r clientX rect s))"
    using clamp_again [of "totalSlides s"]
    by (simp add: showThumbnail_def handleProgressClick_def goToSlide_def Let_def
        showSlide_src)
  have c: "rect_width rect \<noteq> 0 \<longrightarrow>
        fst (thumbNumber (thumbnailPreview (showThumbnail r clientX rect s)))
          = jint (target_page
              (r (r (r (clientX - rect_left rect) / rect_width rect) * of_int (totalSlides s)))
              (totalSlides s))"
    using progress_target [of "rect_width rect" "totalSlides s" r clientX "rect_left rect"]
    by (simp add: showThumbnail_def Let_def)
  from a b c show ?thesis by blast
qed

theorem thumbnail_matches_click_witness:
  "rect_width \<lparr>rect_left = 100, rect_width = 200\<rparr> \<noteq> 0
   \<and> fst (thumbNumber (thumbnailPreview
        (showThumbnail (\<lambda>q. q) 250 \<lparr>rect_left = 100, rect_width = 200\<rparr> (open_deck5 [])))) = jint 4
   \<and> currentSlide (handleProgressClick (\<lambda>q. q) 250 \<lparr>rect_left = 100, rect_width = 200\<rparr>
        (open_deck5 [])) = jint 4
   \<and> thumbSrc (thumbnailPreview
        (showThumbnail (\<lambda>q. q) 250 \<lparr>rect_left = 100, rect_width = 200\<rparr> (open_deck5 [])))
       = src (slideCurrent (handleProgressClick (\<lambda>q. q) 250 \<lparr>rect_left = 100, rect_width = 200\<rparr>
           (open_deck5 [])))"
proof -
  let ?rect = "\<lparr>rect_left = 100, rect_width = 200\<rparr>"
  have w: "rect_width ?rect \<noteq> 0" by simp
  have t: "totalSlides (open_deck5 []) = 5" by code_simp
  have p: "target_page (15 / 4) 5 = 4"
    by code_simp
  let ?thumb = "thumbnailPreview (showThumbnail (\<lambda>q. q) 250 ?rect (open_deck5 []))"
  let ?click = "handleProgressClick (\<lambda>q. q) 250 ?rect (open_deck5 [])"
  note th = thumbnail_matches_click [of "\<lambda>q. q" 250 ?rect "open_deck5 []"]
  have a: "fst (thumbNumber ?thumb) = currentSlide ?click"
    by (rule th [THEN conjunct1])
  have b: "thumbSrc ?thumb = src (slideCurrent ?click)"
    by (rule th [THEN conjunct2, THEN conjunct1])
  from th [THEN conjunct2, THEN conjunct2] w t p
  have c: "fst (thumbNumber ?thumb) = jint 4"
    by simp
  from a c have "currentSlide ?click = jint 4" by simp
  with b c w show ?thesis by simp
qed

subsection \<open>Initialisation\<close>

lemma parseInt_default: "parseInt ''1'' = jint 1"
  by (simp add: parseInt_def is_ws_def is_digit_def digits_value_def)

lemma enterScrollMode_keeps:
  "currentSlide (enterScrollMode r s) = currentSlide s"
  "search (enterScrollMode r s) = search s"
  by (simp_all add: enterScrollMode_def scrollToCurrentSlide_def split: option.splits)

text \<open>
  From a page in paged mode, \<open>init\<close> with metadata leaves the constructor's slide
  number clamped as \<open>showSlide\<close> clamps it, and the \<open>page\<close> parameter equal to it.
\<close>

lemma init_paged:
  assumes "\<not> scrollMode s"
  shows "currentSlide (init r b (Some md) w g s)
           = jmax (jint 1) (jmin (currentSlide s) (jint (pageCount md)))"
    and "sp_get (search (init r b (Some md) w g s)) ''page''
           = Some (QNum (currentSlide (init r b (Some md) w g s)))"
  using assms
  by (simp_all add: init_def loadMetadata_def setupEventListeners_def showControls_def Let_def
      showSlide_currentSlide showSlide_search showSlide_scrollMode sp_has_sp_set sp_get_sp_set
      toggleScrollMode_def enterScrollMode_keeps)

text \<open>
  Leaving scroll mode with no image in the scroll container goes to slide 1, so a page
  served in scroll mode with an empty container also ends \<open>init\<close> on slide 1 when
  the constructor read slide 1.
\<close>

lemma showSlide_scrollContainer: "scrollContainer (showSlide r n u s) = scrollContainer s"
  by (simp add: showSlide_def Let_def)

lemma exitScrollMode_empty:
  assumes "scrollContainer s = []"
  shows "currentSlide (exitScrollMode r g s) = jint 1"
    and "sp_get (search (exitScrollMode r g s)) ''page'' = Some (QNum (jint 1))"
  using assms
  by (simp_all add: exitScrollMode_def updateCurrentSlideFromScroll_def Let_def
      showSlide_currentSlide showSlide_search sp_get_sp_set jmin_jint jmax_jint)

lemma init_first_slide:
  assumes "currentSlide s = jint 1" and "scrollMode s \<longrightarrow> scrollContainer s = []"
  shows "currentSlide (init r b (Some md) w g s) = jint 1"
    and "sp_get (search (init r b (Some md) w g s)) ''page'' = Some (QNum (jint 1))"
proof -
  show "currentSlide (init r b (Some md) w g s) = jint 1"
  proof (cases "scrollMode s")
    case False
    from init_paged(1) [OF False, of r b md w g] assms(1) show ?thesis
      by (simp add: jmin_jint jmax_jint)
  next
    case True
    with assms(2) have "scrollContainer s = []" by simp
    with True assms(1) show ?thesis
      by (simp add: init_def loadMetadata_def setupEventListeners_def showControls_def Let_def
          showSlide_currentSlide showSlide_scrollMode showSlide_scrollContainer
          toggleScrollMode_def exitScrollMode_empty jmin_jint jmax_jint)
  qed
  show "sp_get (search (init r b (Some md) w g s)) ''page'' = Some (QNum (jint 1))"
  proof (cases "scrollMode s")
    case False
    from init_paged [OF False, of r b md w g] assms(1) show ?thesis
      by (simp add: jmin_jint jmax_jint)
  next
    case True
    with assms(2) have "scrollContainer s = []" by simp
    with True assms(1) show ?thesis
      by (simp add: init_def loadMetadata_def setupEventListeners_def showControls_def Let_def
          showSlide_currentSlide showSlide_search showSlide_scrollMode showSlide_scrollContainer
          sp_has_sp_set sp_get_sp_set toggleScrollMode_def exitScrollMode_empty
          jmin_jint jmax_jint)
  qed
qed

lemma pad3:
  "padStart 3 (CHR ''0'') (show_nat (Suc 0)) = ''001''"
  "padStart 3 (CHR ''0'') (show_nat (Suc (Suc 0))) = ''002''"
  "padStart 3 (CHR ''0'') (show_nat 3) = ''003''"
  "padStart 3 (CHR ''0'') (show_nat 4) = ''004''"
  "padStart 3 (CHR ''0'') (show_nat 5) = ''005''"
  by code_simp+

lemma upt_five: "[0..<5] = [0, 1, 2, 3, 4]"
  by code_simp

text \<open>
  C7. Metadata of five pages in format png gives exactly the five image URLs numbered
  001 to 005 with extension png, under the base URL and the deck's name; and when the
  query has no \<open>page\<close> parameter, initialisation ends on slide 1 with the
  \<open>page\<close> parameter of the URL set to 1. The page as served is in paged mode, or
  its scroll container is still empty.
\<close>

theorem five_png_pages:
  assumes "pageCount md = 5" and "md_format md = Some ''png''"
  shows "(\<exists>s'. loadMetadata base (Some md) s = Some s' \<and> totalSlides s' = 5 \<and>
            slideImages s' =
              [base @ ''/slides/'' @ slideName s @ ''/images/slide-001.png'',
               base @ ''/slides/'' @ slideName s @ ''/images/slide-002.png'',
               base @ ''/slides/'' @ slideName s @ ''/images/slide-003.png'',
               base @ ''/slides/'' @ slideName s @ ''/images/slide-004.png'',
               base @ ''/slides/'' @ slideName s @ ''/images/slide-005.png''])
       \<and> (map_of query0 ''page'' = None \<and> (\<not> scrollMode page \<or> scrollContainer page = [])
            \<longrightarrow>
            currentSlide (init r b (Some md) w g (SlidefViewer_new path query0 page)) = jint 1
            \<and> sp_get (search (init r b (Some md) w g (SlidefViewer_new path query0 page))) ''page''
                = Some (QNum (jint 1)))"
proof -
  have urls: "\<exists>s'. loadMetadata base (Some md) s = Some s' \<and> totalSlides s' = 5 \<and>
            slideImages s' =
              [base @ ''/slides/'' @ slideName s @ ''/images/slide-001.png'',
               base @ ''/slides/'' @ slideName s @ ''/images/slide-002.png'',
               base @ ''/slides/'' @ slideName s @ ''/images/slide-003.png'',
               base @ ''/slides/'' @ slideName s @ ''/images/slide-004.png'',
               base @ ''/slides/'' @ slideName s @ ''/images/slide-005.png'']"
    using assms by (simp add: loadMetadata_def Let_def upt_five pad3)
  have first: "map_of query0 ''page'' = None \<and> (\<not> scrollMode page \<or> scrollContainer page = [])
            \<longrightarrow>
            currentSlide (init r b (Some md) w g (SlidefViewer_new path query0 page)) = jint 1
            \<and> sp_get (search (init r b (Some md) w g (SlidefViewer_new path query0 page))) ''page''
                = Some (QNum (jint 1))"
  proof (intro impI, elim conjE)
    assume q: "map_of query0 ''page'' = None"
      and m: "\<not> scrollMode page \<or> scrollContainer page = []"
    let ?s0 = "SlidefViewer_new path query0 page"
    have c0: "currentSlide ?s0 = jint 1"
      using q by (simp add: SlidefViewer_new_def Let_def parseInt_default)
    have m0: "scrollMode ?s0 \<longrightarrow> scrollContainer ?s0 = []"
      using m by (auto simp: SlidefViewer_new_def Let_def)
    from init_first_slide [OF c0 m0, of r b md w g]
    show "currentSlide (init r b (Some md) w g ?s0) = jint 1
        \<and> sp_get (search (init r b (Some md) w g ?s0)) ''page'' = Some (QNum (jint 1))"
      by simp
  qed
  from urls first show ?thesis by blast
qed

theorem five_png_pages_witness:
  "pageCount deck5 = 5 \<and> md_format deck5 = Some ''png''
   \<and> map_of ([] :: (string \<times> string) list) ''page'' = None \<and> \<not> scrollMode blank_page
   \<and> scrollContainer blank_page = []
   \<and> slideImages (open_deck5 []) =
       [''/slides/deck/images/slide-001.png'', ''/slides/deck/images/slide-002.png'',
        ''/slides/deck/images/slide-003.png'', ''/slides/deck/images/slide-004.png'',
        ''/slides/deck/images/slide-005.png'']
   \<and> currentSlide (open_deck5 []) = jint 1
   \<and> sp_get (search (open_deck5 [])) ''page'' = Some (QNum (jint 1))"
proof -
  have a: "pageCount deck5 = 5" "md_format deck5 = Some ''png''"
    by (simp_all add: deck5_def)
  have b: "map_of ([] :: (string \<times> string) list) ''page'' = None" "\<not> scrollMode blank_page"
    "scrollContainer blank_page = []"
    by (simp_all add: blank_page_def)
  have c: "slideImages (open_deck5 []) =
       [''/slides/deck/images/slide-001.png'', ''/slides/deck/images/slide-002.png'',
        ''/slides/deck/images/slide-003.png'', ''/slides/deck/images/slide-004.png'',
        ''/slides/deck/images/slide-005.png'']"
    by code_simp
  from five_png_pages [OF a, where ?query0.0 = "[]" and page = blank_page and r = "\<lambda>q. q"
      and b = None and w = 1024 and g = flat_layout and path = "''/deck''"] b
  have "currentSlide (open_deck5 []) = jint 1
      \<and> sp_get (search (open_deck5 [])) ''page'' = Some (QNum (jint 1))"
    by (simp add: open_deck5_def)
  with a b c show ?thesis by simp
qed

section \<open>Properties of the slide index\<close>

lemma importRequest_failed:
  assumes "request_failed resp"
  shows "\<exists>m. importRequest resp s =
           (s\<lparr>importFormHidden := True, importProgressHidden := False,
              progressMessage := ''Checking import status...'', isImporting := True\<rparr>,
            Recheck m)"
  using assms
  by (cases resp rule: request_failed.cases) (simp_all add: importRequest_def Let_def)

lemma repoll_ok_iff:
  "repoll_ok env s \<longleftrightarrow> (\<exists>xs. loadSlides env s = Inr (Some xs))"
  by (auto simp: repoll_ok_def renderSlides_def split: sum.splits option.splits)

lemma loadSlides_mode: "isDevMode s' = isDevMode s \<Longrightarrow> loadSlides env s' = loadSlides env s"
  by (simp add: loadSlides_def)

text \<open>
  C6. When the import request fails, the listing is fetched again. If that listing loads
  and renders, the modal is closed and no alert is shown; otherwise one alert with the
  error's message is shown, the form is shown again, the progress is hidden and the
  modal stays as it was. The alerts are unchanged exactly in the first case. In
  particular a listing from the API with a deck that had no card before closes the
  modal without an alert and renders that listing.
\<close>

theorem failed_import_rechecks_listing:
  assumes "request_failed resp"
  shows "\<not> isImporting (handleImport env resp s)
       \<and> (repoll_ok env s \<longrightarrow>
            importModalHidden (handleImport env resp s)
            \<and> alerts (handleImport env resp s) = alerts s)
       \<and> (\<not> repoll_ok env s \<longrightarrow>
            (\<exists>m. snd (importRequest resp s) = Recheck m
                 \<and> alerts (handleImport env resp s) = alerts s @ [''Import failed: '' @ m])
            \<and> \<not> importFormHidden (handleImport env resp s)
            \<and> importProgressHidden (handleImport env resp s)
            \<and> importModalHidden (handleImport env resp s) = importModalHidden s)
       \<and> (alerts (handleImport env resp s) = alerts s \<longleftrightarrow> repoll_ok env s)
       \<and> (\<forall>xs d. isDevMode s \<and> api_slides env = Response True (Json (Some xs))
                 \<and> d \<in> set xs \<and> d \<notin> set (cards s) \<longrightarrow>
            importModalHidden (handleImport env resp s)
            \<and> alerts (handleImport env resp s) = alerts s
            \<and> cards (handleImport env resp s) = xs)"
proof -
  from importRequest_failed [OF assms, of s] obtain m where
    req: "importRequest resp s =
           (s\<lparr>importFormHidden := True, importProgressHidden := False,
              progressMessage := ''Checking import status...'', isImporting := True\<rparr>,
            Recheck m)"
    by blast
  let ?s1 = "s\<lparr>importFormHidden := True, importProgressHidden := False,
              progressMessage := ''Checking import status...'', isImporting := True\<rparr>"
  have load: "loadSlides env ?s1 = loadSlides env s"
    by (rule loadSlides_mode) simp
  have h: "handleImport env resp s = importTimer env (Recheck m) ?s1"
    by (simp add: handleImport_def req)
  show ?thesis
  proof (cases "loadSlides env s")
    case (Inl e)
    then have no: "\<not> repoll_ok env s"
      by (simp add: repoll_ok_iff)
    from Inl have dev: "\<And>xs. isDevMode s \<Longrightarrow> api_slides env \<noteq> Response True (Json (Some xs))"
      by (auto simp: loadSlides_def)
    from Inl no dev show ?thesis
      by (auto simp: h req importTimer_def Let_def load)
  next
    case (Inr slides)
    show ?thesis
    proof (cases slides)
      case None
      with Inr have no: "\<not> repoll_ok env s"
        by (simp add: repoll_ok_iff)
      from Inr None have dev: "\<And>xs. isDevMode s \<Longrightarrow> api_slides env \<noteq> Response True (Json (Some xs))"
        by (auto simp: loadSlides_def)
      from Inr None no dev show ?thesis
        by (auto simp: h req importTimer_def Let_def load renderSlides_def)
    next
      case (Some ys)
      with Inr have yes: "repoll_ok env s"
        by (simp add: repoll_ok_iff)
      from Inr Some have dev: "\<And>xs. isDevMode s \<Longrightarrow> api_slides env = Response True (Json (Some xs)) \<Longrightarrow> xs = ys"
        by (auto simp: loadSlides_def)
      from Inr Some yes dev show ?thesis
        by (auto simp: h req importTimer_def Let_def load renderSlides_def showEmptyState_def
            closeImportModal_def)
    qed
  qed
qed

theorem failed_import_rechecks_listing_witness:
  "request_failed (NetworkError ''Failed to fetch'')
   \<and> repoll_ok api_lists_new_deck open_dialog
   \<and> new_deck \<notin> set (cards open_dialog)
   \<and> importModalHidden (handleImport api_lists_new_deck (NetworkError ''Failed to fetch'') open_dialog)
   \<and> alerts (handleImport api_lists_new_deck (NetworkError ''Failed to fetch'') open_dialog) = []
   \<and> cards (handleImport api_lists_new_deck (NetworkError ''Failed to fetch'') open_dialog)
       = [new_deck]
   \<and> request_failed (Response False (Json (Some ''bad pdf'')))
   \<and> \<not> repoll_ok api_down open_dialog
   \<and> alerts (handleImport api_down (Response False (Json (Some ''bad pdf''))) open_dialog)
       = [''Import failed: bad pdf'']
   \<and> \<not> importFormHidden (handleImport api_down (Response False (Json (Some ''bad pdf''))) open_dialog)
   \<and> \<not> importModalHidden (handleImport api_down (Response False (Json (Some ''bad pdf''))) open_dialog)"
proof -
  have f1: "request_failed (NetworkError ''Failed to fetch'')"
    and f2: "request_failed (Response False (Json (Some ''bad pdf'')))"
    by simp_all
  have ok: "repoll_ok api_lists_new_deck open_dialog"
    by (simp add: repoll_ok_def loadSlides_def renderSlides_def api_lists_new_deck_def
        open_dialog_def)
  have no: "\<not> repoll_ok api_down open_dialog"
    by (simp add: repoll_ok_def loadSlides_def api_down_def open_dialog_def)
  have pre: "isDevMode open_dialog" "cards open_dialog = []" "alerts open_dialog = []"
    "\<not> importModalHidden open_dialog"
    "api_slides api_lists_new_deck = Response True (Json (Some [new_deck]))"
    by (simp_all add: open_dialog_def api_lists_new_deck_def)
  have m: "snd (importRequest (Response False (Json (Some ''bad pdf''))) open_dialog)
             = Recheck ''bad pdf''"
    by (simp add: importRequest_def Let_def)
  note good = failed_import_rechecks_listing [OF f1, of api_lists_new_deck open_dialog]
  note bad = failed_import_rechecks_listing [OF f2, of api_down open_dialog]
  from good ok pre
  have g: "importModalHidden (handleImport api_lists_new_deck (NetworkError ''Failed to fetch'') open_dialog)"
    "alerts (handleImport api_lists_new_deck (NetworkError ''Failed to fetch'') open_dialog) = []"
    "cards (handleImport api_lists_new_deck (NetworkError ''Failed to fetch'') open_dialog) = [new_deck]"
    by auto
  from bad no pre m
  have b: "alerts (handleImport api_down (Response False (Json (Some ''bad pdf''))) open_dialog)
       = [''Import failed: bad pdf'']"
    "\<not> importFormHidden (handleImport api_down (Response False (Json (Some ''bad pdf''))) open_dialog)"
    "\<not> importModalHidden (handleImport api_down (Response False (Json (Some ''bad pdf''))) open_dialog)"
    by auto
  from f1 f2 ok no pre g b show ?thesis by simp
qed

end
